theory Spec2Isabelle
  imports Complex_Main "HOL-Library.Sublist"
begin

section \<open>String sanitizer (src/lib/validation.ts, sanitizeString)\<close>

text \<open>
  A JavaScript string is modelled as a \<open>string\<close> (a list of characters); \<open>length\<close>
  is the number of code units, as \<open>.length\<close> is.

  \<open>input.replace(/c/g, r)\<close> with a one-character pattern and a replacement text
  without \<open>$\<close> replaces every occurrence of the character, left to right.
\<close>

definition replace_all :: "char \<Rightarrow> string \<Rightarrow> string \<Rightarrow> string" where
  "replace_all c r input = concat (map (\<lambda>x. if x = c then r else [x]) input)"

text \<open>The five replacements, chained in the order of the source.\<close>

definition sanitizeString :: "string \<Rightarrow> string" where
  "sanitizeString input =
     replace_all (CHR ''/'') ''&#x2F;''
       (replace_all (CHR 0x27) ''&#x27;''
         (replace_all (CHR 0x22) ''&quot;''
           (replace_all (CHR ''>'') ''&gt;''
             (replace_all (CHR ''<'') ''&lt;'' input))))"

text \<open>The five characters the sanitizer targets: \<open><\<close>, \<open>>\<close>, double quote, single quote, \<open>/\<close>.\<close>

definition target_chars :: "char list" where
  "target_chars = [CHR ''<'', CHR ''>'', CHR 0x22, CHR 0x27, CHR ''/'']"

section \<open>File upload guard (src/lib/validation.ts, validateFileUpload)\<close>

text \<open>
  The fields of a \<open>File\<close> the function reads: \<open>file.type\<close>, \<open>file.size\<close> (a byte
  count, never negative) and \<open>file.name\<close>.
\<close>

record File =
  file_type :: string
  file_size :: nat
  file_name :: string

text \<open>The result \<open>{ valid: boolean; error?: string }\<close>; an absent \<open>error\<close> is \<open>None\<close>.\<close>

record upload_result =
  valid :: bool
  error :: "string option"

text \<open>
  The four regular expressions of \<open>suspiciousPatterns\<close>, each as the predicate that
  \<open>pattern.test\<close> computes (no flag is set, so \<open>test\<close> keeps no state and \<open>^\<close> is the
  start of the string):
  \<open>/\.\./\<close> two dots in a row anywhere, \<open>/[<>:"|?*]/\<close> one of seven characters
  anywhere, \<open>/^\./\<close> a dot first, \<open>/\x00/\<close> a NUL character anywhere.
\<close>

definition starts_with :: "string \<Rightarrow> string \<Rightarrow> bool" where
  "starts_with pat s = (take (length pat) s = pat)"

fun contains_str :: "string \<Rightarrow> string \<Rightarrow> bool" where
  "contains_str pat [] = (pat = [])"
| "contains_str pat (c # cs) = (starts_with pat (c # cs) \<or> contains_str pat cs)"

definition contains_any :: "char list \<Rightarrow> string \<Rightarrow> bool" where
  "contains_any cls s = list_ex (\<lambda>c. c \<in> set cls) s"

definition suspiciousPatterns :: "(string \<Rightarrow> bool) list" where
  "suspiciousPatterns =
     [contains_str ''..'',
      contains_any [CHR ''<'', CHR ''>'', CHR '':'', CHR 0x22, CHR ''|'', CHR ''?'', CHR ''*''],
      starts_with ''.'',
      contains_str [CHR 0x00]]"

definition max_upload_size :: nat where
  "max_upload_size = 50 * 1024 * 1024"

text \<open>\<open>!file.name\<close> holds exactly for the empty string.\<close>

definition validateFileUpload :: "File \<Rightarrow> upload_result" where
  "validateFileUpload file =
     (if file_type file \<noteq> ''application/pdf'' then
        \<lparr>valid = False, error = Some ''Only PDF files are allowed''\<rparr>
      else if file_size file > max_upload_size then
        \<lparr>valid = False, error = Some ''File size must be less than 50MB''\<rparr>
      else if file_name file = [] \<or> length (file_name file) > 255 then
        \<lparr>valid = False, error = Some ''Invalid file name''\<rparr>
      else if list_ex (\<lambda>pattern. pattern (file_name file)) suspiciousPatterns then
        \<lparr>valid = False, error = Some ''Invalid file name''\<rparr>
      else \<lparr>valid = True, error = None\<rparr>)"

subsection \<open>The check list of the specification (section 4.5)\<close>

text \<open>
  The specification's four numbered checks, written from its words and independent of
  each other, to compare the function with: (1) the declared media type is the accepted
  one, (2) the byte size does not exceed 50 MiB, (3) the name is non-empty and at most
  255 characters, (4) the name matches no forbidden pattern (contains \<open>..\<close>, contains one
  of \<open>< > : " | ? *\<close>, begins with a dot, contains a null byte).
\<close>

datatype upload_check = TypeCheck | SizeCheck | NameLengthCheck | NamePatternCheck

fun check_violated :: "File \<Rightarrow> upload_check \<Rightarrow> bool" where
  "check_violated f TypeCheck = (file_type f \<noteq> ''application/pdf'')"
| "check_violated f SizeCheck = (50 * 1024 * 1024 < file_size f)"
| "check_violated f NameLengthCheck = (length (file_name f) = 0 \<or> 255 < length (file_name f))"
| "check_violated f NamePatternCheck =
     ((\<exists>i. Suc i < length (file_name f) \<and> file_name f ! i = CHR ''.''
          \<and> file_name f ! Suc i = CHR ''.'')
      \<or> set (file_name f) \<inter> {CHR ''<'', CHR ''>'', CHR '':'', CHR 0x22, CHR ''|'', CHR ''?'', CHR ''*''} \<noteq> {}
      \<or> (file_name f \<noteq> [] \<and> hd (file_name f) = CHR ''.'')
      \<or> CHR 0x00 \<in> set (file_name f))"

fun check_message :: "upload_check \<Rightarrow> string" where
  "check_message TypeCheck = ''Only PDF files are allowed''"
| "check_message SizeCheck = ''File size must be less than 50MB''"
| "check_message NameLengthCheck = ''Invalid file name''"
| "check_message NamePatternCheck = ''Invalid file name''"

definition check_order :: "upload_check list" where
  "check_order = [TypeCheck, SizeCheck, NameLengthCheck, NamePatternCheck]"

text \<open>The message of the earliest violated check, if any check is violated.\<close>

definition earliest_violation :: "File \<Rightarrow> string option" where
  "earliest_violation f =
     (case filter (check_violated f) check_order of
        [] \<Rightarrow> None
      | c # _ \<Rightarrow> Some (check_message c))"

section \<open>Values of the JavaScript runtime\<close>

text \<open>
  \<open>validateInput\<close> takes \<open>data: unknown\<close>. A number is a finite value (held exactly, as
  a rational), \<open>NaN\<close> or an infinity. A plain object is the list of the properties that
  \<open>data[key]\<close> and \<open>key in data\<close> see, in order; the first entry of a key counts. Any
  other runtime value (an array, a function, a date, ...) is \<open>JOther\<close> with the kind the
  validation library's type detection gives it.
\<close>

datatype jsnum = Fin rat | NaN | PosInf | NegInf

datatype other_type =
  TArray | TFunction | TDate | TBigint | TSymbol | TPromise | TMap | TSet | TUnknown

datatype jsval =
    JUndefined
  | JNull
  | JBool bool
  | JNum jsnum
  | JStr string
  | JObj "(string \<times> jsval) list"
  | JOther other_type

definition get_property :: "(string \<times> jsval) list \<Rightarrow> string \<Rightarrow> jsval" where
  "get_property kvs k = (case map_of kvs k of None \<Rightarrow> JUndefined | Some v \<Rightarrow> v)"

definition has_property :: "(string \<times> jsval) list \<Rightarrow> string \<Rightarrow> bool" where
  "has_property kvs k = (map_of kvs k \<noteq> None)"

text \<open>\<open>Array.prototype.join\<close> on a list of strings.\<close>

fun join :: "string \<Rightarrow> string list \<Rightarrow> string" where
  "join sep [] = []"
| "join sep [x] = x"
| "join sep (x # y # ys) = x @ sep @ join sep (y # ys)"

text \<open>Decimal numerals, for the numbers that appear in messages and in coerced strings.\<close>

fun show_nat :: "nat \<Rightarrow> string" where
  "show_nat n =
     (if n < 10 then [''0123456789'' ! n]
      else show_nat (n div 10) @ [''0123456789'' ! (n mod 10)])"

declare show_nat.simps [simp del]

definition show_int :: "int \<Rightarrow> string" where
  "show_int i = (if i < 0 then CHR ''-'' # show_nat (nat (- i)) else show_nat (nat i))"

definition is_digit :: "char \<Rightarrow> bool" where
  "is_digit c = (c \<in> set ''0123456789'')"

definition digit_value :: "char \<Rightarrow> nat" where
  "digit_value c = of_char c - 48"

definition decimal_value :: "string \<Rightarrow> nat" where
  "decimal_value s = foldl (\<lambda>acc c. 10 * acc + digit_value c) 0 s"

text \<open>
  Modelled from the spec: the coercion of \<open>z.coerce.number()\<close> (section 4.1: from a
  string representation to an integer), which the library does with the runtime's
  \<open>Number(v)\<close>; neither is under src/. It is written out where the result is a matter
  of a line: \<open>undefined\<close> gives \<open>NaN\<close>, \<open>null\<close> gives 0, a boolean 0 or 1, a number
  itself, and a string of one to fifteen decimal digits the integer it denotes (exact
  in a double). Every other value (strings with signs, spaces, fractions, exponents or
  prefixes, objects, arrays, ...) is left to the parameter \<open>rest\<close>, which stands for
  what the runtime returns there; the theorems hold for every \<open>rest\<close>.
\<close>

definition Number_js :: "(jsval \<Rightarrow> jsnum) \<Rightarrow> jsval \<Rightarrow> jsnum" where
  "Number_js rest v =
     (case v of
        JUndefined \<Rightarrow> NaN
      | JNull \<Rightarrow> Fin 0
      | JBool b \<Rightarrow> Fin (if b then 1 else 0)
      | JNum n \<Rightarrow> n
      | JStr s \<Rightarrow>
          (if s \<noteq> [] \<and> length s \<le> 15 \<and> list_all is_digit s
           then Fin (of_nat (decimal_value s)) else rest v)
      | _ \<Rightarrow> rest v)"

text \<open>
  An instance of the parameter for closed examples: every value the definition above
  leaves open converts to \<open>NaN\<close>.
\<close>

definition rest_nan :: "jsval \<Rightarrow> jsnum" where
  "rest_nan v = NaN"

section \<open>Validation engine\<close>

text \<open>
  The schemas of src/lib/validation.ts are built with the validation library zod, and
  \<open>validateInput\<close> calls the library's \<open>schema.safeParse\<close>. The library is not under
  src/. This section models the part of it the schemas use, following the
  specification (sections 3, 4.1 and 4.3): every field of the schema is looked up and
  checked, every violation is recorded with its field path and message in declaration
  order, defaults are substituted, and a success carries the declared fields only. The
  message texts the specification leaves open are the library's default texts.
\<close>

record issue =
  path :: "string list"
  message :: string

text \<open>
  The result of parsing one value: the violations recorded, and the parsed value unless
  parsing was aborted. A parse is valid when no violation is recorded.
\<close>

type_synonym parse_return = "issue list \<times> jsval option"

fun other_type_name :: "other_type \<Rightarrow> string" where
  "other_type_name TArray = ''array''"
| "other_type_name TFunction = ''function''"
| "other_type_name TDate = ''date''"
| "other_type_name TBigint = ''bigint''"
| "other_type_name TSymbol = ''symbol''"
| "other_type_name TPromise = ''promise''"
| "other_type_name TMap = ''map''"
| "other_type_name TSet = ''set''"
| "other_type_name TUnknown = ''unknown''"

fun getParsedType :: "jsval \<Rightarrow> string" where
  "getParsedType JUndefined = ''undefined''"
| "getParsedType JNull = ''null''"
| "getParsedType (JBool b) = ''boolean''"
| "getParsedType (JNum n) = (if n = NaN then ''nan'' else ''number'')"
| "getParsedType (JStr s) = ''string''"
| "getParsedType (JObj kvs) = ''object''"
| "getParsedType (JOther t) = other_type_name t"

text \<open>
  Modelled from the spec: the message of a value of the wrong type, which the library's
  default error map (not under src/) produces. An absent (undefined) value is reported
  with the required-field wording, in the library's text \<open>Required\<close>.
\<close>

definition invalid_type_message :: "string \<Rightarrow> jsval \<Rightarrow> string" where
  "invalid_type_message expected received =
     (if received = JUndefined then ''Required''
      else ''Expected '' @ expected @ '', received '' @ getParsedType received)"

text \<open>A message given in the schema replaces the default text.\<close>

definition or_default :: "string option \<Rightarrow> string \<Rightarrow> string" where
  "or_default custom dflt = (case custom of Some m \<Rightarrow> m | None \<Rightarrow> dflt)"

subsection \<open>Primitive validators\<close>

text \<open>
  Modelled from the spec: the format checks behind \<open>.uuid()\<close>, \<open>.email()\<close> and
  \<open>.datetime()\<close> are regular expressions of the library, not under src/. Section 4.1
  describes them: a canonical 36-character hyphenated hexadecimal token; a local part,
  an at sign and a domain part that contains a dot; an ISO-8601 date-time string (here
  the UTC form \<open>YYYY-MM-DDTHH:MM:SS\<close>, an optional fraction, and \<open>Z\<close>).
\<close>

definition hex_digit :: "char \<Rightarrow> bool" where
  "hex_digit c = (c \<in> set ''0123456789abcdefABCDEF'')"

definition is_uuid :: "string \<Rightarrow> bool" where
  "is_uuid s =
     (length s = 36
      \<and> list_all hex_digit (take 8 s) \<and> s ! 8 = CHR ''-''
      \<and> list_all hex_digit (take 4 (drop 9 s)) \<and> s ! 13 = CHR ''-''
      \<and> list_all hex_digit (take 4 (drop 14 s)) \<and> s ! 18 = CHR ''-''
      \<and> list_all hex_digit (take 4 (drop 19 s)) \<and> s ! 23 = CHR ''-''
      \<and> list_all hex_digit (drop 24 s))"

definition is_email :: "string \<Rightarrow> bool" where
  "is_email s =
     (let local_part = takeWhile (\<lambda>c. c \<noteq> CHR ''@'') s;
          domain_part = drop 1 (dropWhile (\<lambda>c. c \<noteq> CHR ''@'') s)
      in local_part \<noteq> [] \<and> CHR ''@'' \<in> set s \<and> CHR ''@'' \<notin> set domain_part
         \<and> CHR ''.'' \<in> set domain_part)"

definition is_datetime :: "string \<Rightarrow> bool" where
  "is_datetime s =
     (20 \<le> length s
      \<and> list_all is_digit (take 4 s) \<and> s ! 4 = CHR ''-''
      \<and> list_all is_digit (take 2 (drop 5 s)) \<and> s ! 7 = CHR ''-''
      \<and> list_all is_digit (take 2 (drop 8 s)) \<and> s ! 10 = CHR ''T''
      \<and> list_all is_digit (take 2 (drop 11 s)) \<and> s ! 13 = CHR '':''
      \<and> list_all is_digit (take 2 (drop 14 s)) \<and> s ! 16 = CHR '':''
      \<and> list_all is_digit (take 2 (drop 17 s))
      \<and> last s = CHR ''Z''
      \<and> (length s = 20
          \<or> (22 \<le> length s \<and> s ! 19 = CHR ''.'' \<and> list_all is_digit (butlast (drop 20 s)))))"

text \<open>
  The checks chained on \<open>z.string()\<close>, each with the message the source gives it, if
  any: \<open>.min(n, msg)\<close>, \<open>.max(n, msg)\<close>, \<open>.email(msg)\<close>, \<open>.uuid(msg)\<close>, \<open>.datetime()\<close>.
\<close>

datatype string_check =
    SMin nat "string option"
  | SMax nat "string option"
  | SEmail "string option"
  | SUuid "string option"
  | SDatetime "string option"

text \<open>
  Modelled from the spec: one string constraint, run on a present string (the library's
  check loop is not under src/). A violated constraint records one violation; a
  bounded string is measured by its length.
\<close>

fun string_check_issues :: "string list \<Rightarrow> string \<Rightarrow> string_check \<Rightarrow> issue list" where
  "string_check_issues p s (SMin n m) =
     (if length s < n
      then [\<lparr>path = p, message = or_default m
              (''String must contain at least '' @ show_nat n @ '' character(s)'')\<rparr>]
      else [])"
| "string_check_issues p s (SMax n m) =
     (if length s > n
      then [\<lparr>path = p, message = or_default m
              (''String must contain at most '' @ show_nat n @ '' character(s)'')\<rparr>]
      else [])"
| "string_check_issues p s (SEmail m) =
     (if \<not> is_email s then [\<lparr>path = p, message = or_default m ''Invalid email''\<rparr>] else [])"
| "string_check_issues p s (SUuid m) =
     (if \<not> is_uuid s then [\<lparr>path = p, message = or_default m ''Invalid uuid''\<rparr>] else [])"
| "string_check_issues p s (SDatetime m) =
     (if \<not> is_datetime s then [\<lparr>path = p, message = or_default m ''Invalid datetime''\<rparr>] else [])"

text \<open>
  The checks chained on a number: \<open>.int()\<close>, a lower bound (\<open>.min(b)\<close> inclusive,
  \<open>.positive()\<close> the exclusive bound 0) and an upper bound (\<open>.max(b, msg)\<close> inclusive).
\<close>

datatype number_check =
    NInt "string option"
  | NMin int bool "string option"
  | NMax int bool "string option"

fun isInteger :: "jsnum \<Rightarrow> bool" where
  "isInteger (Fin q) = (of_int \<lfloor>q\<rfloor> = q)"
| "isInteger _ = False"

fun num_less :: "jsnum \<Rightarrow> int \<Rightarrow> bool" where
  "num_less (Fin q) b = (q < of_int b)"
| "num_less NegInf b = True"
| "num_less _ b = False"

fun num_greater :: "jsnum \<Rightarrow> int \<Rightarrow> bool" where
  "num_greater (Fin q) b = (q > of_int b)"
| "num_greater PosInf b = True"
| "num_greater _ b = False"

fun num_equals :: "jsnum \<Rightarrow> int \<Rightarrow> bool" where
  "num_equals (Fin q) b = (q = of_int b)"
| "num_equals _ b = False"

text \<open>
  Modelled from the spec: one numeric constraint (integer, lower bound, upper bound),
  run on a number; the library's check loop is not under src/.
\<close>

fun number_check_issues :: "string list \<Rightarrow> jsnum \<Rightarrow> number_check \<Rightarrow> issue list" where
  "number_check_issues p n (NInt m) =
     (if \<not> isInteger n
      then [\<lparr>path = p, message = or_default m ''Expected integer, received float''\<rparr>]
      else [])"
| "number_check_issues p n (NMin b inclusive m) =
     (if (if inclusive then num_less n b else num_less n b \<or> num_equals n b)
      then [\<lparr>path = p, message = or_default m
              (''Number must be ''
               @ (if inclusive then ''greater than or equal to '' else ''greater than '')
               @ show_int b)\<rparr>]
      else [])"
| "number_check_issues p n (NMax b inclusive m) =
     (if (if inclusive then num_greater n b else num_greater n b \<or> num_equals n b)
      then [\<lparr>path = p, message = or_default m
              (''Number must be ''
               @ (if inclusive then ''less than or equal to '' else ''less than '')
               @ show_int b)\<rparr>]
      else [])"

definition joinValues :: "string list \<Rightarrow> string" where
  "joinValues vals = join '' | '' (map (\<lambda>v. [CHR 0x27] @ v @ [CHR 0x27]) vals)"

subsection \<open>Schemas\<close>

text \<open>
  The schema constructors the source uses: \<open>z.string()\<close> with its checks,
  \<open>z.number()\<close> and \<open>z.coerce.number()\<close> (the flag) with their checks, \<open>z.boolean()\<close>,
  \<open>z.enum(values)\<close> with the message of its \<open>errorMap\<close> if it has one,
  \<open>z.literal(value, {errorMap})\<close> with the message of its \<open>errorMap\<close>, \<open>.optional()\<close>,
  \<open>.default(value)\<close> and \<open>z.object({...})\<close> with its fields in declaration order.
\<close>

datatype zschema =
    ZString "string_check list"
  | ZNumber bool "number_check list"
  | ZBoolean
  | ZEnum "string list" "string option"
  | ZLiteral string string
  | ZOptional zschema
  | ZDefault zschema jsval
  | ZObject "(string \<times> zschema) list"

text \<open>
  Modelled from the spec: parsing a value against a primitive schema (the library's
  parsers are not under src/). A value of the wrong type, an absent one included, is one
  violation and aborts; a value of the right type runs every constraint in order and
  records every violation.
\<close>

definition parse_string :: "string_check list \<Rightarrow> string list \<Rightarrow> jsval \<Rightarrow> parse_return" where
  "parse_string checks p v =
     (case v of
        JStr s \<Rightarrow> (concat (map (string_check_issues p s) checks), Some (JStr s))
      | _ \<Rightarrow> ([\<lparr>path = p, message = invalid_type_message ''string'' v\<rparr>], None))"

definition parse_number ::
  "(jsval \<Rightarrow> jsnum) \<Rightarrow> bool \<Rightarrow> number_check list \<Rightarrow> string list \<Rightarrow> jsval \<Rightarrow> parse_return" where
  "parse_number rest coerce checks p v =
     (let d = (if coerce then JNum (Number_js rest v) else v) in
      case d of
        JNum n \<Rightarrow>
          (if n = NaN then ([\<lparr>path = p, message = invalid_type_message ''number'' d\<rparr>], None)
           else (concat (map (number_check_issues p n) checks), Some (JNum n)))
      | _ \<Rightarrow> ([\<lparr>path = p, message = invalid_type_message ''number'' d\<rparr>], None))"

definition parse_boolean :: "string list \<Rightarrow> jsval \<Rightarrow> parse_return" where
  "parse_boolean p v =
     (case v of
        JBool b \<Rightarrow> ([], Some (JBool b))
      | _ \<Rightarrow> ([\<lparr>path = p, message = invalid_type_message ''boolean'' v\<rparr>], None))"

definition parse_enum ::
  "string list \<Rightarrow> string option \<Rightarrow> string list \<Rightarrow> jsval \<Rightarrow> parse_return" where
  "parse_enum vals errorMap p v =
     (case v of
        JStr s \<Rightarrow>
          (if s \<in> set vals then ([], Some (JStr s))
           else ([\<lparr>path = p, message = or_default errorMap
                    (''Invalid enum value. Expected '' @ joinValues vals @ '', received ''
                     @ [CHR 0x27] @ s @ [CHR 0x27])\<rparr>],
                 None))
      | _ \<Rightarrow>
          ([\<lparr>path = p, message = or_default errorMap (invalid_type_message (joinValues vals) v)\<rparr>],
           None))"

definition parse_literal :: "string \<Rightarrow> string \<Rightarrow> string list \<Rightarrow> jsval \<Rightarrow> parse_return" where
  "parse_literal lit errorMap p v =
     (if v = JStr lit then ([], Some v) else ([\<lparr>path = p, message = errorMap\<rparr>], None))"

text \<open>
  Modelled from the spec: building the normalized object (the library's object parser is
  not under src/). Each pair is a declared key, the result of parsing its value, and
  whether the input has the key. An aborted field aborts the object; a field is set in
  the output when its parsed value is not undefined or the input has the key. Keys of
  the input that the schema does not declare never get here: they are dropped.
\<close>

type_synonym object_pair = "string \<times> parse_return \<times> bool"

fun mergeObjectSync :: "object_pair list \<Rightarrow> (string \<times> jsval) list option" where
  "mergeObjectSync [] = Some []"
| "mergeObjectSync ((key, (iss, val), alwaysSet) # pairs) =
     (case val of
        None \<Rightarrow> None
      | Some v \<Rightarrow>
          (case mergeObjectSync pairs of
             None \<Rightarrow> None
           | Some finalObject \<Rightarrow>
               Some (if v \<noteq> JUndefined \<or> alwaysSet then (key, v) # finalObject
                     else finalObject)))"

definition pair_issues :: "object_pair list \<Rightarrow> issue list" where
  "pair_issues pairs = concat (map (\<lambda>(key, r, alwaysSet). fst r) pairs)"

text \<open>
  Modelled from the spec: the validation pass of section 4.3 (the library's
  \<open>safeParse\<close> is not under src/). An optional field that is absent is skipped, a
  default is substituted for an absent field and then checked as a present one, and an
  object parses every declared field, in declaration order, whatever the fields before
  it gave; \<open>p\<close> is the path of the value.
\<close>

fun parse :: "(jsval \<Rightarrow> jsnum) \<Rightarrow> zschema \<Rightarrow> string list \<Rightarrow> jsval \<Rightarrow> parse_return"
and parse_shape ::
  "(jsval \<Rightarrow> jsnum) \<Rightarrow> (string \<times> zschema) list \<Rightarrow> string list \<Rightarrow> (string \<times> jsval) list
     \<Rightarrow> object_pair list"
where
  "parse rest (ZString checks) p v = parse_string checks p v"
| "parse rest (ZNumber coerce checks) p v = parse_number rest coerce checks p v"
| "parse rest ZBoolean p v = parse_boolean p v"
| "parse rest (ZEnum vals errorMap) p v = parse_enum vals errorMap p v"
| "parse rest (ZLiteral lit errorMap) p v = parse_literal lit errorMap p v"
| "parse rest (ZOptional inner) p v =
     (if v = JUndefined then ([], Some JUndefined) else parse rest inner p v)"
| "parse rest (ZDefault inner d) p v =
     parse rest inner p (if v = JUndefined then d else v)"
| "parse rest (ZObject shape) p v =
     (case v of
        JObj kvs \<Rightarrow>
          (let pairs = parse_shape rest shape p kvs
           in (pair_issues pairs, map_option JObj (mergeObjectSync pairs)))
      | _ \<Rightarrow> ([\<lparr>path = p, message = invalid_type_message ''object'' v\<rparr>], None))"
| "parse_shape rest [] p kvs = []"
| "parse_shape rest ((key, keyValidator) # shape) p kvs =
     (key, parse rest keyValidator (p @ [key]) (get_property kvs key), has_property kvs key)
       # parse_shape rest shape p kvs"

text \<open>
  Modelled from the spec: the discriminated result of the library's \<open>safeParse\<close> (not
  under src/): success with the normalized value when no violation was recorded,
  otherwise the recorded violations.
\<close>

datatype SafeParseReturn = SafeParseSuccess jsval | SafeParseError "issue list"

definition safeParse :: "(jsval \<Rightarrow> jsnum) \<Rightarrow> zschema \<Rightarrow> jsval \<Rightarrow> SafeParseReturn" where
  "safeParse rest schema data =
     (case parse rest schema [] data of
        ([], Some v) \<Rightarrow> SafeParseSuccess v
      | (issues, _) \<Rightarrow> SafeParseError issues)"

text \<open>
  Modelled from the spec: \<open>a.merge(b)\<close> (the library's method is not under src/), the
  union of both field sets: the fields of \<open>a\<close> in their order, a field that \<open>b\<close> also
  declares taking the constraint of \<open>b\<close>, then the fields only \<open>b\<close> declares. Only
  object schemas have the method; the last equation is there for totality.
\<close>

fun merge :: "zschema \<Rightarrow> zschema \<Rightarrow> zschema" where
  "merge (ZObject a) (ZObject b) =
     ZObject (map (\<lambda>(k, s). (k, case map_of b k of None \<Rightarrow> s | Some s' \<Rightarrow> s')) a
              @ filter (\<lambda>(k, s). map_of a k = None) b)"
| "merge a b = a"

section \<open>Schema registry and validateInput (src/lib/validation.ts)\<close>

definition uuidSchema :: zschema where
  "uuidSchema = ZString [SUuid (Some ''Invalid UUID format'')]"

definition emailSchema :: zschema where
  "emailSchema = ZString [SEmail (Some ''Invalid email format'')]"

definition fileUploadSchema :: zschema where
  "fileUploadSchema = ZObject
     [(''type'', ZLiteral ''application/pdf'' ''Only PDF files are allowed''),
      (''size'', ZNumber False
         [NMax (50 * 1024 * 1024) True (Some ''File size must be less than 50MB'')]),
      (''name'', ZString [SMin 1 (Some ''File name is required'')])]"

definition reportIdSchema :: zschema where
  "reportIdSchema = ZObject [(''id'', uuidSchema)]"

definition reportUpdateSchema :: zschema where
  "reportUpdateSchema = ZObject
     [(''id'', uuidSchema),
      (''status'', ZOptional (ZEnum [''draft'', ''reviewed'', ''sent''] None)),
      (''notes'', ZOptional (ZString [SMax 10000 (Some ''Notes too long'')]))]"

definition noteSchema :: zschema where
  "noteSchema = ZObject
     [(''reportId'', uuidSchema),
      (''itemId'', ZString [SMin 1 (Some ''Item ID is required''),
                            SMax 100 (Some ''Item ID too long'')]),
      (''note'', ZString [SMax 5000 (Some ''Note too long'')])]"

definition verificationSchema :: zschema where
  "verificationSchema = ZObject
     [(''reportId'', uuidSchema),
      (''itemId'', ZString [SMin 1 (Some ''Item ID is required''),
                            SMax 100 (Some ''Item ID too long'')]),
      (''verified'', ZBoolean)]"

definition checkoutSchema :: zschema where
  "checkoutSchema = ZObject
     [(''plan'', ZEnum [''monthly'', ''yearly'']
         (Some ''Invalid plan. Must be monthly or yearly.''))]"

definition signupSchema :: zschema where
  "signupSchema = ZObject
     [(''email'', emailSchema),
      (''password'', ZString [SMin 8 (Some ''Password must be at least 8 characters''),
                              SMax 100 (Some ''Password too long'')]),
      (''fullName'', ZOptional (ZString [SMin 1 (Some ''Name is required''),
                                         SMax 100 (Some ''Name too long'')])),
      (''firmName'', ZOptional (ZString [SMax 200 (Some ''Firm name too long'')]))]"

definition loginSchema :: zschema where
  "loginSchema = ZObject
     [(''email'', emailSchema),
      (''password'', ZString [SMin 1 (Some ''Password is required'')])]"

definition profileUpdateSchema :: zschema where
  "profileUpdateSchema = ZObject
     [(''fullName'', ZOptional (ZString [SMax 100 (Some ''Name too long'')])),
      (''firmName'', ZOptional (ZString [SMax 200 (Some ''Firm name too long'')])),
      (''phone'', ZOptional (ZString [SMax 20 (Some ''Phone number too long'')]))]"

definition paginationSchema :: zschema where
  "paginationSchema = ZObject
     [(''page'', ZDefault (ZNumber True [NInt None, NMin 0 False None]) (JNum (Fin 1))),
      (''limit'', ZDefault (ZNumber True [NInt None, NMin 1 True None, NMax 100 True None])
         (JNum (Fin 20)))]"

definition reportFilterSchema :: zschema where
  "reportFilterSchema = merge
     (ZObject
        [(''status'', ZOptional (ZEnum [''draft'', ''reviewed'', ''sent''] None)),
         (''search'', ZOptional (ZString [SMax 200 None])),
         (''startDate'', ZOptional (ZString [SDatetime None])),
         (''endDate'', ZOptional (ZString [SDatetime None]))])
     paginationSchema"

text \<open>
  \<open>validateInput\<close>: the parsed data on success; otherwise every recorded error as
  \<open>`${e.path.join('.')}: ${e.message}`\<close>, joined with a comma and a space.
\<close>

datatype validate_result = Success jsval | Failure string

definition format_issue :: "issue \<Rightarrow> string" where
  "format_issue e = join ''.'' (path e) @ '': '' @ message e"

definition validateInput :: "(jsval \<Rightarrow> jsnum) \<Rightarrow> zschema \<Rightarrow> jsval \<Rightarrow> validate_result" where
  "validateInput rest schema data =
     (case safeParse rest schema data of
        SafeParseSuccess d \<Rightarrow> Success d
      | SafeParseError errors \<Rightarrow> Failure (join '', '' (map format_issue errors)))"

section \<open>Notions used to state the properties of the engine\<close>




text \<open>The string checks that the empty string violates: a format, or a minimum length of 1 or more.\<close>

fun rejects_empty :: "string_check \<Rightarrow> bool" where
  "rejects_empty (SMin n m) = (1 \<le> n)"
| "rejects_empty (SMax n m) = False"
| "rejects_empty (SEmail m) = True"
| "rejects_empty (SUuid m) = True"
| "rejects_empty (SDatetime m) = True"

text \<open>The schemas src/lib/validation.ts exports, by their names.\<close>

definition registry :: "(string \<times> zschema) list" where
  "registry =
     [(''uuidSchema'', uuidSchema), (''emailSchema'', emailSchema),
      (''fileUploadSchema'', fileUploadSchema), (''reportIdSchema'', reportIdSchema),
      (''reportUpdateSchema'', reportUpdateSchema), (''noteSchema'', noteSchema),
      (''verificationSchema'', verificationSchema), (''checkoutSchema'', checkoutSchema),
      (''signupSchema'', signupSchema), (''loginSchema'', loginSchema),
      (''profileUpdateSchema'', profileUpdateSchema), (''paginationSchema'', paginationSchema),
      (''reportFilterSchema'', reportFilterSchema)]"

section \<open>Properties of the sanitizer\<close>

lemma set_replace_all: "set (replace_all c r s) \<subseteq> (set s - {c}) \<union> set r"
  by (induction s) (auto simp: replace_all_def)


lemma sanitizeString_clean:
  "set (sanitizeString s) \<inter> set target_chars = {}"
proof -
  let ?s1 = "replace_all (CHR ''<'') ''&lt;'' s"
  let ?s2 = "replace_all (CHR ''>'') ''&gt;'' ?s1"
  let ?s3 = "replace_all (CHR 0x22) ''&quot;'' ?s2"
  let ?s4 = "replace_all (CHR 0x27) ''&#x27;'' ?s3"
  let ?s5 = "replace_all (CHR ''/'') ''&#x2F;'' ?s4"
  have 1: "CHR ''<'' \<notin> set ?s1"
    using set_replace_all [of "CHR ''<''" "''&lt;''" s] by auto
  have 2: "CHR ''<'' \<notin> set ?s2 \<and> CHR ''>'' \<notin> set ?s2"
    using 1 set_replace_all [of "CHR ''>''" "''&gt;''" ?s1] by auto
  have 3: "CHR ''<'' \<notin> set ?s3 \<and> CHR ''>'' \<notin> set ?s3 \<and> CHR 0x22 \<notin> set ?s3"
    using 2 set_replace_all [of "CHR 0x22" "''&quot;''" ?s2] by auto
  have 4: "CHR ''<'' \<notin> set ?s4 \<and> CHR ''>'' \<notin> set ?s4 \<and> CHR 0x22 \<notin> set ?s4
      \<and> CHR 0x27 \<notin> set ?s4"
    using 3 set_replace_all [of "CHR 0x27" "''&#x27;''" ?s3] by auto
  have 5: "CHR ''<'' \<notin> set ?s5 \<and> CHR ''>'' \<notin> set ?s5 \<and> CHR 0x22 \<notin> set ?s5
      \<and> CHR 0x27 \<notin> set ?s5 \<and> CHR ''/'' \<notin> set ?s5"
    using 4 set_replace_all [of "CHR ''/''" "''&#x2F;''" ?s4] by auto
  show ?thesis
    using 5 by (simp add: sanitizeString_def target_chars_def)
qed


text \<open>
  Claim C8. For every input string, the output of sanitizeString contains none of the
  five characters \<open><\<close>, \<open>>\<close>, double quote, single quote and \<open>/\<close>.
\<close>

theorem sanitizeString_no_target_chars:
  "CHR ''<'' \<notin> set (sanitizeString s) \<and> CHR ''>'' \<notin> set (sanitizeString s)
   \<and> CHR 0x22 \<notin> set (sanitizeString s) \<and> CHR 0x27 \<notin> set (sanitizeString s)
   \<and> CHR ''/'' \<notin> set (sanitizeString s)"
  using sanitizeString_clean [of s] by (simp add: target_chars_def)



section \<open>Properties of the file upload guard\<close>

lemma contains_str_dots:
  "contains_str ''..'' s = (\<exists>i. Suc i < length s \<and> s ! i = CHR ''.'' \<and> s ! Suc i = CHR ''.'')"
proof (induction s)
  case Nil
  then show ?case by simp
next
  case (Cons c cs)
  have head: "starts_with ''..'' (c # cs) = (c = CHR ''.'' \<and> cs \<noteq> [] \<and> hd cs = CHR ''.'')"
    by (cases cs) (auto simp: starts_with_def)
  show ?case
  proof
    assume "contains_str ''..'' (c # cs)"
    then consider "starts_with ''..'' (c # cs)" | "contains_str ''..'' cs" by auto
    then show "\<exists>i. Suc i < length (c # cs) \<and> (c # cs) ! i = CHR ''.'' \<and> (c # cs) ! Suc i = CHR ''.''"
    proof cases
      case 1
      then have "Suc 0 < length (c # cs) \<and> (c # cs) ! 0 = CHR ''.'' \<and> (c # cs) ! Suc 0 = CHR ''.''"
        using head by (cases cs) auto
      then show ?thesis by blast
    next
      case 2
      then obtain i where "Suc i < length cs \<and> cs ! i = CHR ''.'' \<and> cs ! Suc i = CHR ''.''"
        using Cons.IH by blast
      then have "Suc (Suc i) < length (c # cs) \<and> (c # cs) ! Suc i = CHR ''.''
          \<and> (c # cs) ! Suc (Suc i) = CHR ''.''" by simp
      then show ?thesis by blast
    qed
  next
    assume "\<exists>i. Suc i < length (c # cs) \<and> (c # cs) ! i = CHR ''.'' \<and> (c # cs) ! Suc i = CHR ''.''"
    then obtain i where i: "Suc i < length (c # cs)" "(c # cs) ! i = CHR ''.''"
      "(c # cs) ! Suc i = CHR ''.''" by blast
    show "contains_str ''..'' (c # cs)"
    proof (cases i)
      case 0
      then have "starts_with ''..'' (c # cs)"
        using i head by (cases cs) auto
      then show ?thesis by simp
    next
      case (Suc j)
      then have "Suc j < length cs \<and> cs ! j = CHR ''.'' \<and> cs ! Suc j = CHR ''.''"
        using i by simp
      then have "contains_str ''..'' cs" using Cons.IH by blast
      then show ?thesis by simp
    qed
  qed
qed

lemma contains_str_char: "contains_str [c] s = (c \<in> set s)"
  by (induction s) (auto simp: starts_with_def)

lemma contains_any_set: "contains_any cls s = (set s \<inter> set cls \<noteq> {})"
  by (induction s) (auto simp: contains_any_def)

lemma starts_with_dot: "starts_with ''.'' s = (s \<noteq> [] \<and> hd s = CHR ''.'')"
  by (cases s) (auto simp: starts_with_def)

lemma suspicious_iff_pattern_check:
  "list_ex (\<lambda>pattern. pattern (file_name f)) suspiciousPatterns = check_violated f NamePatternCheck"
  by (simp add: suspiciousPatterns_def contains_str_dots contains_str_char contains_any_set
      starts_with_dot)

text \<open>
  Claim C1. The four test vectors of the specification: a traversal name is rejected
  with "Invalid file name", a PNG with "Only PDF files are allowed", a 60 MiB PDF with
  "File size must be less than 50MB", and a small PDF named report.pdf is valid with no
  error.
\<close>

theorem validateFileUpload_test_vectors:
  "validateFileUpload \<lparr>file_type = ''application/pdf'', file_size = 10, file_name = ''../../etc/passwd''\<rparr>
     = \<lparr>valid = False, error = Some ''Invalid file name''\<rparr>
   \<and> validateFileUpload \<lparr>file_type = ''image/png'', file_size = 10, file_name = ''a.pdf''\<rparr>
     = \<lparr>valid = False, error = Some ''Only PDF files are allowed''\<rparr>
   \<and> validateFileUpload \<lparr>file_type = ''application/pdf'', file_size = 60 * 1024 * 1024, file_name = ''a.pdf''\<rparr>
     = \<lparr>valid = False, error = Some ''File size must be less than 50MB''\<rparr>
   \<and> validateFileUpload \<lparr>file_type = ''application/pdf'', file_size = 10, file_name = ''report.pdf''\<rparr>
     = \<lparr>valid = True, error = None\<rparr>"
  by (simp add: validateFileUpload_def max_upload_size_def suspiciousPatterns_def
      starts_with_def contains_any_def)

text \<open>
  Claim C7. The checks run in the order type, size, name length, name patterns, and the
  first violated one alone decides the result: the function returns the message of the
  earliest violated check of the specification's list, and valid with no error when
  none is violated. In particular a descriptor whose type is not application/pdf
  gets "Only PDF files are allowed" whatever its size and name.
\<close>

theorem validateFileUpload_earliest_check:
  "validateFileUpload f =
     (case earliest_violation f of
        None \<Rightarrow> \<lparr>valid = True, error = None\<rparr>
      | Some msg \<Rightarrow> \<lparr>valid = False, error = Some msg\<rparr>)
   \<and> (file_type f \<noteq> ''application/pdf'' \<longrightarrow>
        validateFileUpload f = \<lparr>valid = False, error = Some ''Only PDF files are allowed''\<rparr>)"
proof -
  have pat: "list_ex (\<lambda>pattern. pattern (file_name f)) suspiciousPatterns
      = check_violated f NamePatternCheck"
    by (rule suspicious_iff_pattern_check)
  have "validateFileUpload f =
     (case earliest_violation f of
        None \<Rightarrow> \<lparr>valid = True, error = None\<rparr>
      | Some msg \<Rightarrow> \<lparr>valid = False, error = Some msg\<rparr>)"
    unfolding validateFileUpload_def pat
    by (simp add: earliest_violation_def check_order_def max_upload_size_def
        del: check_violated.simps(4))
  moreover have "file_type f \<noteq> ''application/pdf'' \<longrightarrow>
      validateFileUpload f = \<lparr>valid = False, error = Some ''Only PDF files are allowed''\<rparr>"
    by (simp add: validateFileUpload_def)
  ultimately show ?thesis by simp
qed

theorem validateFileUpload_earliest_check_witness:
  "file_type \<lparr>file_type = ''image/png'', file_size = 60 * 1024 * 1024, file_name = ''../x''\<rparr>
     \<noteq> ''application/pdf''
   \<and> earliest_violation \<lparr>file_type = ''image/png'', file_size = 60 * 1024 * 1024, file_name = ''../x''\<rparr>
     = Some ''Only PDF files are allowed''
   \<and> validateFileUpload \<lparr>file_type = ''image/png'', file_size = 60 * 1024 * 1024, file_name = ''../x''\<rparr>
     = \<lparr>valid = False, error = Some ''Only PDF files are allowed''\<rparr>"
  using validateFileUpload_earliest_check
    [of "\<lparr>file_type = ''image/png'', file_size = 60 * 1024 * 1024, file_name = ''../x''\<rparr>"]
  by (simp add: earliest_violation_def check_order_def)

text \<open>
  Claim C9. The size ceiling is inclusive: a PDF of exactly 50 * 1024 * 1024 bytes named
  report.pdf is valid, and the size message is returned exactly for a PDF of more than
  50 * 1024 * 1024 bytes.
\<close>

theorem validateFileUpload_size_ceiling_inclusive:
  "validateFileUpload \<lparr>file_type = ''application/pdf'', file_size = 50 * 1024 * 1024, file_name = ''report.pdf''\<rparr>
     = \<lparr>valid = True, error = None\<rparr>
   \<and> (error (validateFileUpload f) = Some ''File size must be less than 50MB'')
     = (file_type f = ''application/pdf'' \<and> 50 * 1024 * 1024 < file_size f)"
proof -
  have "validateFileUpload \<lparr>file_type = ''application/pdf'', file_size = 50 * 1024 * 1024, file_name = ''report.pdf''\<rparr>
     = \<lparr>valid = True, error = None\<rparr>"
    by (simp add: validateFileUpload_def max_upload_size_def suspiciousPatterns_def
        starts_with_def contains_any_def)
  moreover have "(error (validateFileUpload f) = Some ''File size must be less than 50MB'')
     = (file_type f = ''application/pdf'' \<and> 50 * 1024 * 1024 < file_size f)"
    by (simp add: validateFileUpload_def max_upload_size_def)
  ultimately show ?thesis by simp
qed

text \<open>
  Claim C10. For every descriptor the result carries an error exactly when valid is
  false, and an error is one of the three messages "Only PDF files are allowed",
  "File size must be less than 50MB" and "Invalid file name".
\<close>

theorem validateFileUpload_result_invariant:
  "(error (validateFileUpload f) \<noteq> None) = (\<not> valid (validateFileUpload f))
   \<and> (error (validateFileUpload f) = None
      \<or> error (validateFileUpload f) = Some ''Only PDF files are allowed''
      \<or> error (validateFileUpload f) = Some ''File size must be less than 50MB''
      \<or> error (validateFileUpload f) = Some ''Invalid file name'')"
  by (simp add: validateFileUpload_def)

section \<open>Properties of the validation engine\<close>

lemma list_all_pairD: "list_all (\<lambda>(a, b). P a b) xs \<Longrightarrow> (a, b) \<in> set xs \<Longrightarrow> P a b"
  by (auto simp: list_all_iff)

lemma pair_issues_parse_shape:
  "pair_issues (parse_shape rest shape p kvs)
     = concat (map (\<lambda>(k, s). fst (parse rest s (p @ [k]) (get_property kvs k))) shape)"
  by (induction shape) (auto simp: pair_issues_def)

lemma validateInput_issues:
  "fst (parse rest schema [] data) \<noteq> [] \<Longrightarrow>
   validateInput rest schema data
     = Failure (join '', '' (map format_issue (fst (parse rest schema [] data))))"
  by (cases "parse rest schema [] data")
     (auto simp: validateInput_def safeParse_def split: list.splits option.splits)











text \<open>
  Claim C5. Against the pagination schema, the empty object validates to page 1 and
  limit 20; page given as the string "3" validates to page 3 (coerced to a number) and
  limit 20; limit 101 fails.
\<close>

theorem pagination_vectors:
  "validateInput rest paginationSchema (JObj [])
     = Success (JObj [(''page'', JNum (Fin 1)), (''limit'', JNum (Fin 20))])
   \<and> validateInput rest paginationSchema (JObj [(''page'', JStr ''3'')])
     = Success (JObj [(''page'', JNum (Fin 3)), (''limit'', JNum (Fin 20))])
   \<and> validateInput rest paginationSchema (JObj [(''limit'', JNum (Fin 101))])
     = Failure ''limit: Number must be less than or equal to 100''"
proof -
  have 1: "validateInput rest paginationSchema (JObj [])
     = Success (JObj [(''page'', JNum (Fin 1)), (''limit'', JNum (Fin 20))])"
    by (simp add: validateInput_def safeParse_def paginationSchema_def get_property_def
        has_property_def parse_number_def Number_js_def pair_issues_def)
  have 2: "validateInput rest paginationSchema (JObj [(''page'', JStr ''3'')])
     = Success (JObj [(''page'', JNum (Fin 3)), (''limit'', JNum (Fin 20))])"
    by (simp add: validateInput_def safeParse_def paginationSchema_def get_property_def
        has_property_def parse_number_def Number_js_def pair_issues_def is_digit_def
        decimal_value_def digit_value_def)
  have 3: "validateInput rest paginationSchema (JObj [(''limit'', JNum (Fin 101))])
     = Failure ''limit: Number must be less than or equal to 100''"
    by (simp add: validateInput_def safeParse_def paginationSchema_def get_property_def
        has_property_def parse_number_def Number_js_def pair_issues_def format_issue_def
        or_default_def show_int_def show_nat.simps)
  from 1 2 3 show ?thesis by simp
qed









lemma object_issues:
  "fst (parse rest (ZObject shape) p (JObj kvs))
     = concat (map (\<lambda>(k, s). fst (parse rest s (p @ [k]) (get_property kvs k))) shape)"
  by (simp add: Let_def pair_issues_parse_shape)

lemma field_issues_included:
  "(k, s) \<in> set shape \<Longrightarrow>
   set (fst (parse rest s (p @ [k]) (get_property kvs k)))
     \<subseteq> set (fst (parse rest (ZObject shape) p (JObj kvs)))"
  unfolding object_issues by auto












lemma rejects_empty_issue: "rejects_empty c \<Longrightarrow> string_check_issues p [] c \<noteq> []"
  by (cases c) (auto simp: is_email_def is_uuid_def is_datetime_def)

lemma empty_string_rejected:
  assumes "(k, ZString checks) \<in> set shape" "list_ex rejects_empty checks"
    "get_property kvs k = JStr []"
  shows "\<exists>msg. validateInput rest (ZObject shape) (JObj kvs) = Failure msg"
proof -
  from assms(2) obtain c where c: "c \<in> set checks" "rejects_empty c"
    by (auto simp: list_ex_iff)
  then have "string_check_issues [k] [] c \<noteq> []" by (simp add: rejects_empty_issue)
  with c(1) have "concat (map (string_check_issues [k] []) checks) \<noteq> []" by auto
  then have "fst (parse rest (ZString checks) ([] @ [k]) (get_property kvs k)) \<noteq> []"
    using assms(3) by (simp add: parse_string_def)
  with field_issues_included [OF assms(1), of rest "[]" kvs]
  have "fst (parse rest (ZObject shape) [] (JObj kvs)) \<noteq> []" by auto
  then show ?thesis using validateInput_issues [of rest "ZObject shape" "JObj kvs"] by blast
qed


lemma registry_string_fields_all:
  "list_all (\<lambda>(name, S). case S of
        ZObject shape \<Rightarrow>
          list_all (\<lambda>(k, s). case s of
              ZString checks \<Rightarrow> (name, k) = (''noteSchema'', ''note'') \<or> list_ex rejects_empty checks
            | _ \<Rightarrow> True) shape
      | _ \<Rightarrow> True) registry"
  by (simp add: registry_def uuidSchema_def emailSchema_def fileUploadSchema_def
      reportIdSchema_def reportUpdateSchema_def noteSchema_def verificationSchema_def
      checkoutSchema_def signupSchema_def loginSchema_def profileUpdateSchema_def
      paginationSchema_def reportFilterSchema_def)

lemma registry_string_fields:
  assumes "(name, ZObject shape) \<in> set registry" "(k, ZString checks) \<in> set shape"
    "(name, k) \<noteq> (''noteSchema'', ''note'')"
  shows "list_ex rejects_empty checks"
proof -
  from list_all_pairD [OF registry_string_fields_all assms(1)]
  have "list_all (\<lambda>(k, s). case s of
              ZString checks \<Rightarrow> (name, k) = (''noteSchema'', ''note'') \<or> list_ex rejects_empty checks
            | _ \<Rightarrow> True) shape"
    by (simp only: zschema.case)
  from list_all_pairD [OF this assms(2)]
  have "(name, k) = (''noteSchema'', ''note'') \<or> list_ex rejects_empty checks"
    by (simp only: zschema.case)
  with assms(3) show ?thesis by blast
qed

lemma note_accepts_empty:
  "validateInput rest noteSchema
     (JObj [(''reportId'', JStr ''123e4567-e89b-12d3-a456-426614174000''),
            (''itemId'', JStr ''a''), (''note'', JStr [])])
   = Success (JObj [(''reportId'', JStr ''123e4567-e89b-12d3-a456-426614174000''),
            (''itemId'', JStr ''a''), (''note'', JStr [])])"
  by (simp add: validateInput_def safeParse_def noteSchema_def uuidSchema_def get_property_def
      has_property_def parse_string_def pair_issues_def is_uuid_def hex_digit_def)

text \<open>
  Claim C2, as the specification states it, fails on the note field of the note schema:
  with a well-formed reportId and itemId, the empty string as note validates.
\<close>

theorem note_empty_string_accepted:
  "validateInput rest_nan noteSchema
     (JObj [(''reportId'', JStr ''123e4567-e89b-12d3-a456-426614174000''),
            (''itemId'', JStr ''a''), (''note'', JStr [])])
   = Success (JObj [(''reportId'', JStr ''123e4567-e89b-12d3-a456-426614174000''),
            (''itemId'', JStr ''a''), (''note'', JStr [])])"
  by (rule note_accepts_empty)

text \<open>
  Claim C2, amended. In every registered schema, every required string field except the
  note field of the note schema rejects the empty string (each declares a format or a
  minimum length of 1 or more), and so do the uuid and email schemas themselves. The
  note field declares a maximum length only: it accepts the empty string and rejects an
  absent value.
\<close>

theorem required_strings_reject_empty_except_note:
  "((name, ZObject shape) \<in> set registry \<and> (k, ZString checks) \<in> set shape
      \<and> (name, k) \<noteq> (''noteSchema'', ''note'') \<and> get_property kvs k = JStr []
     \<longrightarrow> (\<exists>msg. validateInput rest (ZObject shape) (JObj kvs) = Failure msg))
   \<and> validateInput rest uuidSchema (JStr []) = Failure '': Invalid UUID format''
   \<and> validateInput rest emailSchema (JStr []) = Failure '': Invalid email format''
   \<and> validateInput rest noteSchema
        (JObj [(''reportId'', JStr ''123e4567-e89b-12d3-a456-426614174000''),
               (''itemId'', JStr ''a''), (''note'', JStr [])])
      = Success (JObj [(''reportId'', JStr ''123e4567-e89b-12d3-a456-426614174000''),
               (''itemId'', JStr ''a''), (''note'', JStr [])])
   \<and> validateInput rest noteSchema
        (JObj [(''reportId'', JStr ''123e4567-e89b-12d3-a456-426614174000''),
               (''itemId'', JStr ''a'')])
      = Failure ''note: Required''"
proof -
  have a: "(name, ZObject shape) \<in> set registry \<and> (k, ZString checks) \<in> set shape
      \<and> (name, k) \<noteq> (''noteSchema'', ''note'') \<and> get_property kvs k = JStr []
     \<longrightarrow> (\<exists>msg. validateInput rest (ZObject shape) (JObj kvs) = Failure msg)"
    using registry_string_fields [of name shape k checks]
      empty_string_rejected [of k checks shape kvs rest] by blast
  have b: "validateInput rest uuidSchema (JStr []) = Failure '': Invalid UUID format''"
    by (simp add: validateInput_def safeParse_def uuidSchema_def parse_string_def is_uuid_def
        format_issue_def or_default_def)
  have c: "validateInput rest emailSchema (JStr []) = Failure '': Invalid email format''"
    by (simp add: validateInput_def safeParse_def emailSchema_def parse_string_def is_email_def
        format_issue_def or_default_def)
  have d: "validateInput rest noteSchema
        (JObj [(''reportId'', JStr ''123e4567-e89b-12d3-a456-426614174000''),
               (''itemId'', JStr ''a'')])
      = Failure ''note: Required''"
    by (simp add: validateInput_def safeParse_def noteSchema_def uuidSchema_def get_property_def
      has_property_def parse_string_def pair_issues_def is_uuid_def hex_digit_def
      invalid_type_message_def format_issue_def)
  from a b c d note_accepts_empty [of rest] show ?thesis by blast
qed

theorem required_strings_reject_empty_except_note_witness:
  "(''loginSchema'', loginSchema) \<in> set registry
   \<and> (''loginSchema'', ''password'') \<noteq> (''noteSchema'', ''note'')
   \<and> get_property [(''email'', JStr ''user@example.com''), (''password'', JStr [])] ''password''
       = JStr []
   \<and> validateInput rest_nan loginSchema
        (JObj [(''email'', JStr ''user@example.com''), (''password'', JStr [])])
      = Failure ''password: Password is required''"
proof -
  let ?pw = "[SMin 1 (Some ''Password is required'')]"
  let ?shape = "[(''email'', emailSchema), (''password'', ZString ?pw)]"
  let ?kvs = "[(''email'', JStr ''user@example.com''), (''password'', JStr [])]"
  have hyp: "(''loginSchema'', ZObject ?shape) \<in> set registry
      \<and> (''password'', ZString ?pw) \<in> set ?shape
      \<and> (''loginSchema'', ''password'') \<noteq> (''noteSchema'', ''note'')
      \<and> get_property ?kvs ''password'' = JStr []"
    by (simp add: registry_def loginSchema_def get_property_def)
  from required_strings_reject_empty_except_note
    [of "''loginSchema''" ?shape "''password''" ?pw ?kvs rest_nan] hyp
  obtain msg where msg: "validateInput rest_nan (ZObject ?shape) (JObj ?kvs) = Failure msg"
    by blast
  have ev: "validateInput rest_nan (ZObject ?shape) (JObj ?kvs)
      = Failure ''password: Password is required''"
    by (simp add: validateInput_def safeParse_def emailSchema_def get_property_def
        has_property_def parse_string_def pair_issues_def is_email_def format_issue_def
        or_default_def)
  from hyp msg ev show ?thesis by (simp add: loginSchema_def)
qed

end
